theory Spec2Isabelle
  imports Main
begin

section \<open>Errors and dynamically typed arguments\<close>

text \<open>
  The exceptions that \<^verbatim>\<open>elisa/model/node.py\<close> raises, or that the Python
  runtime raises on its behalf, are values of one datatype; a function that can raise
  returns \<open>error + 'a\<close> with \<open>Inl\<close> for the exception.
\<close>

datatype error = TypeError | ValueError | RuntimeError | KeyError | IndexError | AttributeError

text \<open>
  The \<^verbatim>\<open>deterministic\<close> argument of a parameter is checked at run time
  (\<^verbatim>\<open>isinstance\<close>, \<^verbatim>\<open>callable\<close>, \<^verbatim>\<open>len\<close>), so it is a dynamically
  typed object: a string, a callable, a list or tuple of objects, or anything else.
\<close>

datatype 'f obj = Str string | Callable 'f | Seq "'f obj list" | Other

text \<open>
  A \<^verbatim>\<open>numpyro\<close> distribution is seen only through \<^verbatim>\<open>_validate_sample\<close>, the
  membership test of its support; the alternative is a fixed number.
\<close>

datatype 'a distribution = Distribution "'a \<Rightarrow> bool" | Number 'a

section \<open>Node: identity and attributes\<close>

text \<open>
  \<^verbatim>\<open>Node._attrs\<close> is a dictionary with the keys \<^verbatim>\<open>name, fmt, type, is_operation,
  id\<close>, extended by each subclass with its own keys; it is an extensible record.
\<close>

record node_attrs =
  attr_name :: string
  attr_fmt :: string
  attr_type :: string
  attr_is_operation :: bool
  attr_id :: string

record ('a, 'f) parameter_attrs = node_attrs +
  attr_default :: 'a
  attr_distribution :: "'a distribution"
  attr_deterministic :: "'f obj option"

record mtype_attrs = node_attrs +
  attr_mtype :: string
  attr_is_ncon :: bool

record 'g model_attrs = mtype_attrs +
  attr_func_generator :: 'g

text \<open>
  A node value is the object together with everything reachable through
  \<^verbatim>\<open>predecessor\<close>. A leaf model keeps \<^verbatim>\<open>_params_name\<close> and its parameter nodes;
  an operation node keeps its two operands.
\<close>

datatype ('a, 'f, 'g) node =
    ParameterNode "('a, 'f) parameter_attrs"
  | ParameterOperationNode node_attrs "('a, 'f, 'g) node" "('a, 'f, 'g) node"
  | ModelNode "'g model_attrs" "string list" "('a, 'f, 'g) node list"
  | ModelOperationNode mtype_attrs "('a, 'f, 'g) node" "('a, 'f, 'g) node"

fun type_of :: "('a, 'f, 'g) node \<Rightarrow> string" where
  "type_of (ParameterNode a) = ''parameter''"
| "type_of (ParameterOperationNode a lh rh) = ''parameter''"
| "type_of (ModelNode a ks ps) = ''model''"
| "type_of (ModelOperationNode a lh rh) = ''model''"

fun attrs :: "('a, 'f, 'g) node \<Rightarrow> node_attrs" where
  "attrs (ParameterNode a) = node_attrs.truncate a"
| "attrs (ParameterOperationNode a lh rh) = a"
| "attrs (ModelNode a ks ps) = node_attrs.truncate a"
| "attrs (ModelOperationNode a lh rh) = node_attrs.truncate a"

fun predecessor :: "('a, 'f, 'g) node \<Rightarrow> ('a, 'f, 'g) node list" where
  "predecessor (ParameterNode a) = []"
| "predecessor (ParameterOperationNode a lh rh) = [lh, rh]"
| "predecessor (ModelNode a ks ps) = ps"
| "predecessor (ModelOperationNode a lh rh) = [lh, rh]"

text \<open>\<^verbatim>\<open>node.attrs['mtype']\<close> and \<^verbatim>\<open>node.attrs['is_ncon']\<close>: a parameter node has
  no such key.\<close>

fun attrs_mtype :: "('a, 'f, 'g) node \<Rightarrow> error + string" where
  "attrs_mtype (ModelNode a ks ps) = Inr (attr_mtype a)"
| "attrs_mtype (ModelOperationNode a lh rh) = Inr (attr_mtype a)"
| "attrs_mtype n = Inl KeyError"

fun attrs_is_ncon :: "('a, 'f, 'g) node \<Rightarrow> error + bool" where
  "attrs_is_ncon (ModelNode a ks ps) = Inr (attr_is_ncon a)"
| "attrs_is_ncon (ModelOperationNode a lh rh) = Inr (attr_is_ncon a)"
| "attrs_is_ncon n = Inl KeyError"

text \<open>
  \<^verbatim>\<open>Node.__init__\<close>. The module-level list \<^verbatim>\<open>_UUID\<close> is state: it is passed in
  and returned. The token \<^verbatim>\<open>str(uuid4().hex)\<close> is random, so it is an input
  \<open>node_id\<close>. \<open>keys\<close> are the keys of the \<^verbatim>\<open>attrs\<close> argument and \<open>ty\<close> is
  \<^verbatim>\<open>self.type\<close>. The source has no statement that adds \<open>node_id\<close> to
  \<^verbatim>\<open>_UUID\<close>, so the list comes back as it went in.
\<close>

definition Node_init ::
  "string list \<Rightarrow> string \<Rightarrow> string \<Rightarrow> string \<Rightarrow> string \<Rightarrow> bool \<Rightarrow> string list
    \<Rightarrow> (error + node_attrs) \<times> string list" where
  "Node_init UUID node_id ty name fmt is_operation keys =
    (if ''id'' \<in> set keys then (Inl TypeError, UUID)
     else if ''type'' \<in> set keys then (Inl TypeError, UUID)
     else if node_id \<in> set UUID then (Inl RuntimeError, UUID)
     else (Inr \<lparr>attr_name = name, attr_fmt = fmt, attr_type = ty,
                 attr_is_operation = is_operation, attr_id = node_id\<rparr>, UUID))"

section \<open>OperationNode\<close>

definition check_type ::
  "('a, 'f, 'g) node \<Rightarrow> ('a, 'f, 'g) node \<Rightarrow> string \<Rightarrow> error + string" where
  "check_type lh rh op =
    (if op \<notin> {''+'', ''*''} then Inl TypeError
     else if type_of lh \<noteq> type_of rh then Inl TypeError
     else Inr (type_of lh))"

definition times_fmt :: string where
  "times_fmt = CHR 0x5C # ''times''"

definition OperationNode_init ::
  "string list \<Rightarrow> string \<Rightarrow> string \<Rightarrow> ('a, 'f, 'g) node \<Rightarrow> ('a, 'f, 'g) node \<Rightarrow> string
    \<Rightarrow> (error + node_attrs) \<times> string list" where
  "OperationNode_init UUID node_id ty lh rh op =
    (case check_type lh rh op of
       Inl e \<Rightarrow> (Inl e, UUID)
     | Inr t \<Rightarrow>
        Node_init UUID node_id ty op (if op = ''*'' then times_fmt else op) True [])"

section \<open>ParameterNode and ParameterOperationNode\<close>

definition validate_input :: "'a distribution \<Rightarrow> 'f obj option \<Rightarrow> error + unit" where
  "validate_input dist determ =
    (case determ of
       None \<Rightarrow> Inr ()
     | Some (Seq [Seq names, Callable f]) \<Rightarrow>
         (if list_all (\<lambda>i. case i of Str s \<Rightarrow> True | _ \<Rightarrow> False) names then Inr ()
          else Inl ValueError)
     | Some other \<Rightarrow> Inl ValueError)"

definition validate_default :: "'a distribution \<Rightarrow> 'a \<Rightarrow> error + unit" where
  "validate_default dist dflt =
    (case dist of
       Distribution validate_sample \<Rightarrow>
         (if \<not> validate_sample dflt then Inl ValueError else Inr ())
     | Number c \<Rightarrow> (if c \<noteq> dflt then Inl ValueError else Inr ()))"

definition ParameterNode_init ::
  "string list \<Rightarrow> string \<Rightarrow> string \<Rightarrow> string \<Rightarrow> 'a \<Rightarrow> 'a distribution \<Rightarrow> 'f obj option
    \<Rightarrow> (error + ('a, 'f, 'g) node) \<times> string list" where
  "ParameterNode_init UUID node_id name fmt dflt dist determ =
    (case validate_input dist determ of
       Inl e \<Rightarrow> (Inl e, UUID)
     | Inr u \<Rightarrow>
        (case validate_default dist dflt of
           Inl e \<Rightarrow> (Inl e, UUID)
         | Inr u \<Rightarrow>
            (case Node_init UUID node_id ''parameter'' name fmt False
                    [''default'', ''distribution'', ''deterministic''] of
               (Inl e, U) \<Rightarrow> (Inl e, U)
             | (Inr a, U) \<Rightarrow>
                 (Inr (ParameterNode
                    \<lparr>attr_name = attr_name a, attr_fmt = attr_fmt a, attr_type = attr_type a,
                     attr_is_operation = attr_is_operation a, attr_id = attr_id a,
                     attr_default = dflt, attr_distribution = dist,
                     attr_deterministic = determ\<rparr>), U))))"

text \<open>
  The setter of \<^verbatim>\<open>ParameterNode.default\<close>. The node's attributes are the state:
  they are returned, updated or not, beside the outcome. \<open>float_of\<close> stands for
  Python's \<^verbatim>\<open>float(value)\<close> on a number.
\<close>

definition default_setter ::
  "('a \<Rightarrow> 'a) \<Rightarrow> ('a, 'f) parameter_attrs \<Rightarrow> 'a
    \<Rightarrow> (error + unit) \<times> ('a, 'f) parameter_attrs" where
  "default_setter float_of self v =
    (let value = float_of v in
     case validate_default (attr_distribution self) value of
       Inl e \<Rightarrow> (Inl e, self)
     | Inr u \<Rightarrow> (Inr (), self\<lparr>attr_default := value\<rparr>))"

definition ParameterOperationNode_init ::
  "string list \<Rightarrow> string \<Rightarrow> ('a, 'f, 'g) node \<Rightarrow> ('a, 'f, 'g) node \<Rightarrow> string
    \<Rightarrow> (error + ('a, 'f, 'g) node) \<times> string list" where
  "ParameterOperationNode_init UUID node_id lh rh op =
    (case OperationNode_init UUID node_id ''parameter'' lh rh op of
       (Inl e, U) \<Rightarrow> (Inl e, U)
     | (Inr a, U) \<Rightarrow> (Inr (ParameterOperationNode a lh rh), U))"

text \<open>
  The \<^verbatim>\<open>default\<close> property. A leaf reads \<^verbatim>\<open>attrs['default']\<close>; an operation
  node reads the property of both operands and combines them. A model node has no
  such attribute.
\<close>

fun default_of :: "('a::{plus,times}, 'f, 'g) node \<Rightarrow> error + 'a" where
  "default_of (ParameterNode a) = Inr (attr_default a)"
| "default_of (ParameterOperationNode a lh rh) =
    (case default_of lh of
       Inl e \<Rightarrow> Inl e
     | Inr l \<Rightarrow>
        (case default_of rh of
           Inl e \<Rightarrow> Inl e
         | Inr r \<Rightarrow> if attr_name a = ''+'' then Inr (l + r) else Inr (l * r)))"
| "default_of (ModelNode a ks ps) = Inl AttributeError"
| "default_of (ModelOperationNode a lh rh) = Inl AttributeError"

section \<open>ModelNode and ModelOperationNode\<close>

fun is_parameter_node :: "('a, 'f, 'g) node \<Rightarrow> bool" where
  "is_parameter_node (ParameterNode a) = True"
| "is_parameter_node (ParameterOperationNode a lh rh) = True"
| "is_parameter_node n = False"

text \<open>
  \<^verbatim>\<open>ModelNode.__init__\<close>. \<open>params\<close> is the dictionary of parameters as its list of
  items, in insertion order, or \<open>None\<close>.
\<close>

definition ModelNode_init ::
  "string list \<Rightarrow> string \<Rightarrow> string \<Rightarrow> string \<Rightarrow> string
    \<Rightarrow> (string \<times> ('a, 'f, 'g) node) list option \<Rightarrow> 'g \<Rightarrow> bool
    \<Rightarrow> (error + ('a, 'f, 'g) node) \<times> string list" where
  "ModelNode_init UUID node_id name fmt mtype params func_generator is_ncon =
    (if mtype \<notin> {''add'', ''mul'', ''con''} then (Inl TypeError, UUID)
     else if (case params of None \<Rightarrow> False
              | Some items \<Rightarrow> \<not> list_all is_parameter_node (map snd items))
       then (Inl ValueError, UUID)
     else
       (case Node_init UUID node_id ''model'' name fmt False
               [''mtype'', ''func_generator'', ''is_ncon''] of
          (Inl e, U) \<Rightarrow> (Inl e, U)
        | (Inr a, U) \<Rightarrow>
            (Inr (ModelNode
               \<lparr>attr_name = attr_name a, attr_fmt = attr_fmt a, attr_type = attr_type a,
                attr_is_operation = attr_is_operation a, attr_id = attr_id a,
                attr_mtype = mtype, attr_is_ncon = is_ncon,
                attr_func_generator = func_generator\<rparr>
               (case params of None \<Rightarrow> [] | Some items \<Rightarrow> map fst items)
               (case params of None \<Rightarrow> [] | Some items \<Rightarrow> map snd items)), U)))"

text \<open>
  The legality check of \<^verbatim>\<open>ModelOperationNode.__init__\<close> ("check if operand is
  legal for the op"), for operands whose \<^verbatim>\<open>mtype\<close> has been read already.
\<close>

definition check_operands ::
  "('a, 'f, 'g) node \<Rightarrow> ('a, 'f, 'g) node \<Rightarrow> string \<Rightarrow> string \<Rightarrow> string \<Rightarrow> error + unit" where
  "check_operands lh rh op mtype1 mtype2 =
    (if op = ''+'' then
       (if mtype1 \<noteq> ''add'' then Inl TypeError
        else if mtype2 \<noteq> ''add'' then Inl TypeError
        else Inr ())
     else
       (if mtype1 = ''add'' \<and> mtype2 = ''add'' then Inl TypeError
        else if mtype1 = ''add'' \<and> mtype2 = ''con'' then Inl TypeError
        else
          (case attrs_is_ncon lh of
             Inl e \<Rightarrow> Inl e
           | Inr ncon1 \<Rightarrow>
              if ncon1 then
                (case attrs_is_ncon rh of
                   Inl e \<Rightarrow> Inl e
                 | Inr ncon2 \<Rightarrow> if ncon2 then Inl TypeError else Inr ())
              else Inr ())))"

text \<open>The part of the constructor headed "determine the mtype": the kind and the
  norm flag of the result.\<close>

definition determine_mtype ::
  "('a, 'f, 'g) node \<Rightarrow> ('a, 'f, 'g) node \<Rightarrow> string \<Rightarrow> string \<Rightarrow> error + string \<times> bool" where
  "determine_mtype lh rh mtype1 mtype2 =
    (if mtype1 = ''add'' \<or> mtype2 = ''add'' then Inr (''add'', False)
     else if mtype1 = ''con'' \<or> mtype2 = ''con'' then
       (case attrs_is_ncon lh of
          Inl e \<Rightarrow> Inl e
        | Inr ncon1 \<Rightarrow>
           if ncon1 then Inr (''con'', True)
           else
             (case attrs_is_ncon rh of
                Inl e \<Rightarrow> Inl e
              | Inr ncon2 \<Rightarrow> Inr (''con'', ncon2)))
     else Inr (''mul'', False))"

fun is_ModelOperationNode :: "('a, 'f, 'g) node \<Rightarrow> bool" where
  "is_ModelOperationNode (ModelOperationNode a lh rh) = True"
| "is_ModelOperationNode n = False"

definition ModelOperationNode_init ::
  "string list \<Rightarrow> string \<Rightarrow> ('a, 'f, 'g) node \<Rightarrow> ('a, 'f, 'g) node \<Rightarrow> string
    \<Rightarrow> (error + ('a, 'f, 'g) node) \<times> string list" where
  "ModelOperationNode_init UUID node_id lh rh op =
    (case check_type lh rh op of
       Inl e \<Rightarrow> (Inl e, UUID)
     | Inr t \<Rightarrow>
    (case attrs_mtype lh of
       Inl e \<Rightarrow> (Inl e, UUID)
     | Inr mtype1 \<Rightarrow>
    (case attrs_mtype rh of
       Inl e \<Rightarrow> (Inl e, UUID)
     | Inr mtype2 \<Rightarrow>
    (case check_operands lh rh op mtype1 mtype2 of
       Inl e \<Rightarrow> (Inl e, UUID)
     | Inr u \<Rightarrow>
    (case determine_mtype lh rh mtype1 mtype2 of
       Inl e \<Rightarrow> (Inl e, UUID)
     | Inr (mtype, is_ncon) \<Rightarrow>
    (case OperationNode_init UUID node_id ''model'' lh rh op of
       (Inl e, U) \<Rightarrow> (Inl e, U)
     | (Inr a, U) \<Rightarrow>
        (let self = \<lparr>attr_name = attr_name a, attr_fmt = attr_fmt a, attr_type = attr_type a,
                     attr_is_operation = attr_is_operation a, attr_id = attr_id a,
                     attr_mtype = mtype, attr_is_ncon = is_ncon\<rparr>;
             self = (if \<not> is_ModelOperationNode lh \<and> attrs_mtype lh = Inr ''con''
                     then self\<lparr>attr_fmt := ''*''\<rparr> else self)
         in (Inr (ModelOperationNode self lh rh), U))))))))"

section \<open>Labels with the id suffix\<close>

datatype label = Name | Fmt

definition attr_label :: "label \<Rightarrow> 'z node_attrs_scheme \<Rightarrow> string" where
  "attr_label l a = (case l of Name \<Rightarrow> attr_name a | Fmt \<Rightarrow> attr_fmt a)"

text \<open>
  \<^verbatim>\<open>Node._label_with_id\<close> for a leaf, \<^verbatim>\<open>OperationNode._label_with_id\<close> for an
  operation node; \<^verbatim>\<open>node.name\<close> is \<open>label_with_id Name node\<close> and \<^verbatim>\<open>node.fmt\<close>
  is \<open>label_with_id Fmt node\<close>.
\<close>

fun label_with_id :: "label \<Rightarrow> ('a, 'f, 'g) node \<Rightarrow> string" where
  "label_with_id l (ParameterNode a) = attr_label l a @ ''_'' @ attr_id a"
| "label_with_id l (ModelNode a ks ps) = attr_label l a @ ''_'' @ attr_id a"
| "label_with_id l (ParameterOperationNode a lh rh) =
    (let lh_label = label_with_id l lh;
         rh_label = label_with_id l rh;
         lh_label = (if attr_name a = ''*'' \<and> attr_name (attrs lh) = ''+''
                     then ''('' @ lh_label @ '')'' else lh_label);
         rh_label = (if attr_name a = ''*'' \<and> attr_name (attrs rh) = ''+''
                     then ''('' @ rh_label @ '')'' else rh_label)
     in lh_label @ '' '' @ attr_label l a @ '' '' @ rh_label)"
| "label_with_id l (ModelOperationNode a lh rh) =
    (let lh_label = label_with_id l lh;
         rh_label = label_with_id l rh;
         lh_label = (if attr_name a = ''*'' \<and> attr_name (attrs lh) = ''+''
                     then ''('' @ lh_label @ '')'' else lh_label);
         rh_label = (if attr_name a = ''*'' \<and> attr_name (attrs rh) = ''+''
                     then ''('' @ rh_label @ '')'' else rh_label)
     in lh_label @ '' '' @ attr_label l a @ '' '' @ rh_label)"

section \<open>Evaluators\<close>

text \<open>
  \<^verbatim>\<open>generate_func\<close> returns Python closures, and an evaluator can receive another
  evaluator as its \<^verbatim>\<open>ff\<close> argument. The closures are first-order data here: one
  constructor for each \<^verbatim>\<open>def wrapper_...\<close> and each inner \<^verbatim>\<open>def m2_ff\<close> of the
  source, holding what the Python closure captures. A leaf wrapper captures the
  function made by \<^verbatim>\<open>func_generator(model_name)\<close>; it holds the generator and the
  name. Arguments are dynamically typed: \<^verbatim>\<open>None\<close>, an array, a dictionary with string
  keys (as its list of items), or a function.
\<close>

datatype ('v, 'g) pyval =
    PNone
  | PArray 'v
  | PDict "(string \<times> ('v, 'g) pyval) list"
  | PFunc "('v, 'g) closure"
and ('v, 'g) closure =
    Wrapper_add 'g string
  | Wrapper_mul 'g string
  | Wrapper_ncon 'g string
  | Wrapper_con 'g string
  | Wrapper_add_add "('v, 'g) closure" "('v, 'g) closure"
  | Wrapper_op "('v, 'g) closure" "('v, 'g) closure"
  | Wrapper_mul_ncon "('v, 'g) closure" "('v, 'g) closure"
  | Wrapper_mul_con "('v, 'g) closure" "('v, 'g) closure"
  | Wrapper_ncon_add "('v, 'g) closure" "('v, 'g) closure"
  | Wrapper_ncon_mul "('v, 'g) closure" "('v, 'g) closure"
  | Ncon_mul_m2_ff "('v, 'g) closure" "('v, 'g) pyval"
  | Wrapper_ncon_con "('v, 'g) closure" "('v, 'g) closure"
  | Ncon_con_m2_ff "('v, 'g) closure" "('v, 'g) pyval"
  | Wrapper_con_add "('v, 'g) closure" "('v, 'g) closure"
  | Wrapper_con_mul "('v, 'g) closure" "('v, 'g) closure"
  | Wrapper_con_ncon "('v, 'g) closure" "('v, 'g) closure"
  | Wrapper_con_con "('v, 'g) closure" "('v, 'g) closure"

text \<open>
  The functions that the generators make: \<open>funcs g model_name args kwargs\<close> is the
  call \<^verbatim>\<open>func_generator(model_name)(*args, **kwargs)\<close> of the generator \<open>g\<close>.
\<close>

type_synonym ('v, 'g) funcs =
  "'g \<Rightarrow> string \<Rightarrow> ('v, 'g) pyval list \<Rightarrow> (string \<times> ('v, 'g) pyval) list
    \<Rightarrow> error + ('v, 'g) pyval"

text \<open>\<^verbatim>\<open>p[model_name]\<close>: a key of a dictionary; an array indexed by a string and
  a value that cannot be subscripted raise.\<close>

fun subscript :: "('v, 'g) pyval \<Rightarrow> string \<Rightarrow> error + ('v, 'g) pyval" where
  "subscript (PDict items) k =
    (case map_of items k of None \<Rightarrow> Inl KeyError | Some v \<Rightarrow> Inr v)"
| "subscript (PArray a) k = Inl IndexError"
| "subscript PNone k = Inl TypeError"
| "subscript (PFunc c) k = Inl TypeError"

text \<open>\<^verbatim>\<open>func(*args, **p[model_name])\<close>: the argument after \<^verbatim>\<open>**\<close> must be a
  mapping.\<close>

definition call_func ::
  "('v, 'g) funcs \<Rightarrow> 'g \<Rightarrow> string \<Rightarrow> ('v, 'g) pyval list \<Rightarrow> ('v, 'g) pyval
    \<Rightarrow> error + ('v, 'g) pyval" where
  "call_func funcs g model_name args p =
    (case subscript p model_name of
       Inl e \<Rightarrow> Inl e
     | Inr (PDict kwargs) \<Rightarrow> funcs g model_name args kwargs
     | Inr other \<Rightarrow> Inl TypeError)"

text \<open>\<^verbatim>\<open>+\<close> and \<^verbatim>\<open>*\<close> of two evaluated fluxes: arrays combine by the array
  type's own operation, anything else has no such operator.\<close>

fun py_add :: "('v::{plus,times}, 'g) pyval \<Rightarrow> ('v, 'g) pyval \<Rightarrow> error + ('v, 'g) pyval" where
  "py_add (PArray a) (PArray b) = Inr (PArray (a + b))"
| "py_add x y = Inl TypeError"

fun py_mul :: "('v::{plus,times}, 'g) pyval \<Rightarrow> ('v, 'g) pyval \<Rightarrow> error + ('v, 'g) pyval" where
  "py_mul (PArray a) (PArray b) = Inr (PArray (a * b))"
| "py_mul x y = Inl TypeError"

text \<open>
  Calling a closure with a list of positional arguments. Each equation follows the
  body of the wrapper it is named after, the arguments evaluated from left to right;
  a wrong number of arguments is a \<^verbatim>\<open>TypeError\<close>. The parameter names are the
  source's: \<^verbatim>\<open>wrapper_ncon_mul\<close> names its first parameter \<open>e\<close> and its second
  \<open>p\<close>.
\<close>

fun call ::
  "('v::{plus,times}, 'g) funcs \<Rightarrow> ('v, 'g) closure \<Rightarrow> ('v, 'g) pyval list
    \<Rightarrow> error + ('v, 'g) pyval" where
  "call funcs (Wrapper_add g model_name) args =
    (case args of
       p # e # rest \<Rightarrow>
         call_func funcs g model_name [e] p
     | _ \<Rightarrow> Inl TypeError)"
| "call funcs (Wrapper_mul g model_name) args =
    (case args of
       p # e # rest \<Rightarrow>
         call_func funcs g model_name [e] p
     | _ \<Rightarrow> Inl TypeError)"
| "call funcs (Wrapper_ncon g model_name) args =
    (case args of
       [p] \<Rightarrow>
         call_func funcs g model_name [PNone, PNone] p
     | [p, u] \<Rightarrow>
         call_func funcs g model_name [PNone, PNone] p
     | [p, u, f] \<Rightarrow>
         call_func funcs g model_name [PNone, f] p
     | [p, u, f, ff] \<Rightarrow>
         call_func funcs g model_name [ff, f] p
     | _ \<Rightarrow> Inl TypeError)"
| "call funcs (Wrapper_con g model_name) args =
    (case args of
       p # e # f # rest \<Rightarrow>
         call_func funcs g model_name [e, f] p
     | _ \<Rightarrow> Inl TypeError)"
| "call funcs (Wrapper_add_add m1 m2) args =
    (case args of
       p # e # rest \<Rightarrow>
         (case call funcs m1 [p, e] of
            Inl er \<Rightarrow> Inl er
          | Inr a \<Rightarrow>
             (case call funcs m2 [p, e] of Inl er \<Rightarrow> Inl er | Inr b \<Rightarrow> py_add a b))
     | _ \<Rightarrow> Inl TypeError)"
| "call funcs (Wrapper_op m1 m2) args =
    (case args of
       p # e # rest \<Rightarrow>
         (case call funcs m1 [p, e] of
            Inl er \<Rightarrow> Inl er
          | Inr a \<Rightarrow>
             (case call funcs m2 [p, e] of Inl er \<Rightarrow> Inl er | Inr b \<Rightarrow> py_mul a b))
     | _ \<Rightarrow> Inl TypeError)"
| "call funcs (Wrapper_mul_ncon m1 m2) args =
    (case args of
       [p, e, f, ff] \<Rightarrow>
         (case call funcs m1 [p, e] of
            Inl er \<Rightarrow> Inl er
          | Inr a \<Rightarrow>
             (case call funcs m2 [p, e, f, ff] of Inl er \<Rightarrow> Inl er | Inr b \<Rightarrow> py_mul a b))
     | _ \<Rightarrow> Inl TypeError)"
| "call funcs (Wrapper_mul_con m1 m2) args =
    (case args of
       p # e # f # rest \<Rightarrow>
         (case call funcs m1 [p, e] of
            Inl er \<Rightarrow> Inl er
          | Inr a \<Rightarrow>
             (case call funcs m2 [p, e, f] of Inl er \<Rightarrow> Inl er | Inr b \<Rightarrow> py_mul a b))
     | _ \<Rightarrow> Inl TypeError)"
| "call funcs (Wrapper_ncon_add m1 m2) args =
    (case args of
       p # e # rest \<Rightarrow>
         (case call funcs m2 [p, e] of
            Inl er \<Rightarrow> Inl er
          | Inr flux \<Rightarrow> call funcs m1 [p, e, flux, PFunc m2])
     | _ \<Rightarrow> Inl TypeError)"
| "call funcs (Wrapper_ncon_mul m1 m2) args =
    (case args of
       [e, p, f, ff] \<Rightarrow>
         (case call funcs m2 [e, p] of
            Inl er \<Rightarrow> Inl er
          | Inr a \<Rightarrow>
             (case py_mul a f of
                Inl er \<Rightarrow> Inl er
              | Inr flux \<Rightarrow> call funcs m1 [p, e, flux, PFunc (Ncon_mul_m2_ff m2 ff)]))
     | _ \<Rightarrow> Inl TypeError)"
| "call funcs (Ncon_mul_m2_ff m2 ff) args =
    (case args of
       e # p # rest \<Rightarrow>
         (case call funcs m2 [e, p] of
            Inl er \<Rightarrow> Inl er
          | Inr a \<Rightarrow>
             (case (case ff of PFunc c \<Rightarrow> call funcs c [e, p] | _ \<Rightarrow> Inl TypeError) of
                Inl er \<Rightarrow> Inl er
              | Inr b \<Rightarrow> py_mul a b))
     | _ \<Rightarrow> Inl TypeError)"
| "call funcs (Wrapper_ncon_con m1 m2) args =
    (case args of
       [p, e, f, ff] \<Rightarrow>
         (case call funcs m2 [p, e, f] of
            Inl er \<Rightarrow> Inl er
          | Inr flux \<Rightarrow> call funcs m1 [p, e, flux, PFunc (Ncon_con_m2_ff m2 ff)])
     | _ \<Rightarrow> Inl TypeError)"
| "call funcs (Ncon_con_m2_ff m2 ff) args =
    (case args of
       p # e # rest \<Rightarrow>
         (case (case ff of PFunc c \<Rightarrow> call funcs c [p, e] | _ \<Rightarrow> Inl TypeError) of
            Inl er \<Rightarrow> Inl er
          | Inr flux \<Rightarrow> call funcs m2 [p, e, flux])
     | _ \<Rightarrow> Inl TypeError)"
| "call funcs (Wrapper_con_add m1 m2) args =
    (case args of
       p # e # rest \<Rightarrow>
         (case call funcs m2 [p, e] of
            Inl er \<Rightarrow> Inl er
          | Inr flux \<Rightarrow> call funcs m1 [p, e, flux])
     | _ \<Rightarrow> Inl TypeError)"
| "call funcs (Wrapper_con_mul m1 m2) args =
    (case args of
       p # e # f # rest \<Rightarrow>
         (case call funcs m2 [p, e] of
            Inl er \<Rightarrow> Inl er
          | Inr a \<Rightarrow>
             (case py_mul a f of
                Inl er \<Rightarrow> Inl er
              | Inr flux \<Rightarrow> call funcs m1 [p, e, flux]))
     | _ \<Rightarrow> Inl TypeError)"
| "call funcs (Wrapper_con_ncon m1 m2) args =
    (case args of
       [p, e, f, ff] \<Rightarrow>
         (case call funcs m2 [p, e, f, ff] of
            Inl er \<Rightarrow> Inl er
          | Inr flux \<Rightarrow> call funcs m1 [p, e, flux])
     | _ \<Rightarrow> Inl TypeError)"
| "call funcs (Wrapper_con_con m1 m2) args =
    (case args of
       p # e # f # rest \<Rightarrow>
         (case call funcs m2 [p, e, f] of
            Inl er \<Rightarrow> Inl er
          | Inr flux \<Rightarrow> call funcs m1 [p, e, flux])
     | _ \<Rightarrow> Inl TypeError)"

text \<open>
  \<^verbatim>\<open>ModelNode.generate_func\<close> and \<^verbatim>\<open>ModelOperationNode.generate_func\<close>.
  \<open>mapping\<close> is the dictionary from \<^verbatim>\<open>node.name\<close> to the final model name, as
  its list of items. The wrapper is chosen here, once, from the kinds of the operands.
  A parameter node has no such method.
\<close>

fun generate_func ::
  "(string \<times> string) list \<Rightarrow> ('a, 'f, 'g) node \<Rightarrow> error + ('v, 'g) closure" where
  "generate_func mapping (ModelNode a ks ps) =
    (case map_of mapping (label_with_id Name (ModelNode a ks ps)) of
       None \<Rightarrow> Inl KeyError
     | Some model_name \<Rightarrow>
        (if attr_mtype a = ''add'' then Inr (Wrapper_add (attr_func_generator a) model_name)
         else if attr_mtype a = ''mul'' then
           Inr (Wrapper_mul (attr_func_generator a) model_name)
         else if attr_is_ncon a then Inr (Wrapper_ncon (attr_func_generator a) model_name)
         else Inr (Wrapper_con (attr_func_generator a) model_name)))"
| "generate_func mapping (ModelOperationNode a lh rh) =
    (case generate_func mapping lh of
       Inl e \<Rightarrow> Inl e
     | Inr m1 \<Rightarrow>
    (case generate_func mapping rh of
       Inl e \<Rightarrow> Inl e
     | Inr m2 \<Rightarrow>
    (case attrs_mtype lh of
       Inl e \<Rightarrow> Inl e
     | Inr type1 \<Rightarrow>
    (case attrs_mtype rh of
       Inl e \<Rightarrow> Inl e
     | Inr type2 \<Rightarrow>
       if attr_name a = ''+'' then Inr (Wrapper_add_add m1 m2)
       else if type1 \<noteq> ''con'' then
         (if type2 \<noteq> ''con'' then Inr (Wrapper_op m1 m2)
          else
            (case attrs_is_ncon rh of
               Inl e \<Rightarrow> Inl e
             | Inr ncon2 \<Rightarrow>
                if ncon2 then Inr (Wrapper_mul_ncon m1 m2)
                else Inr (Wrapper_mul_con m1 m2)))
       else
         (case attrs_is_ncon lh of
            Inl e \<Rightarrow> Inl e
          | Inr ncon1 \<Rightarrow>
             if ncon1 then
               (if type2 = ''add'' then Inr (Wrapper_ncon_add m1 m2)
                else if type2 = ''mul'' then Inr (Wrapper_ncon_mul m1 m2)
                else Inr (Wrapper_ncon_con m1 m2))
             else
               (if type2 = ''add'' then Inr (Wrapper_con_add m1 m2)
                else if type2 = ''mul'' then Inr (Wrapper_con_mul m1 m2)
                else
                  (case attrs_is_ncon rh of
                     Inl e \<Rightarrow> Inl e
                   | Inr ncon2 \<Rightarrow>
                      if ncon2 then Inr (Wrapper_con_ncon m1 m2)
                      else Inr (Wrapper_con_con m1 m2))))))))"
| "generate_func mapping (ParameterNode a) = Inl AttributeError"
| "generate_func mapping (ParameterOperationNode a lh rh) = Inl AttributeError"

section \<open>LabelSpace\<close>

text \<open>A dictionary in insertion order: assigning to a key that is present keeps its
  position.\<close>

fun dict_set :: "('k \<times> 'v) list \<Rightarrow> 'k \<Rightarrow> 'v \<Rightarrow> ('k \<times> 'v) list" where
  "dict_set [] k v = [(k, v)]"
| "dict_set ((k', v') # items) k v =
    (if k' = k then (k, v) # items else (k', v') # dict_set items k v)"

text \<open>\<^verbatim>\<open>f'{num}'\<close>: the decimal digits of a natural number.\<close>

definition digit_char :: "nat \<Rightarrow> char" where
  "digit_char d = ''0123456789'' ! d"

function str_nat :: "nat \<Rightarrow> string" where
  "str_nat n = (if n < 10 then [digit_char n] else str_nat (n div 10) @ [digit_char (n mod 10)])"
  by pat_completeness auto
termination
  by (relation "measure (\<lambda>n. n)") auto

declare str_nat.simps [simp del]

text \<open>
  \<^verbatim>\<open>str.replace(old, new)\<close>: every occurrence of \<open>old\<close>, found from left to
  right without overlap, becomes \<open>new\<close>; with an empty \<open>old\<close>, \<open>new\<close> is put
  before every character and at the end.
\<close>

function py_replace :: "string \<Rightarrow> string \<Rightarrow> string \<Rightarrow> string" where
  "py_replace old new [] = (if old = [] then new else [])"
| "py_replace old new (c # s) =
    (if old = [] then new @ c # py_replace old new s
     else if take (length old) (c # s) = old
       then new @ py_replace old new (drop (length old) (c # s))
     else c # py_replace old new s)"
  by pat_completeness auto
termination
  by (relation "measure (\<lambda>(old, new, s). length s)") auto

text \<open>
  The \<^verbatim>\<open>while node_stack\<close> loop of \<^verbatim>\<open>_get_sub_nodes_label\<close>: the state is
  \<open>node_stack\<close> and \<open>labels\<close>.
\<close>

function get_sub_nodes_label_loop ::
  "label \<Rightarrow> ('a, 'f, 'g) node list \<Rightarrow> (('a, 'f, 'g) node \<times> string) list
    \<Rightarrow> (('a, 'f, 'g) node \<times> string) list" where
  "get_sub_nodes_label_loop l [] labels = labels"
| "get_sub_nodes_label_loop l (i # node_stack) labels =
    (if \<not> attr_is_operation (attrs i)
     then get_sub_nodes_label_loop l node_stack (labels @ [(i, attr_label l (attrs i))])
     else get_sub_nodes_label_loop l (predecessor i @ node_stack) labels)"
  by pat_completeness auto
termination
proof (relation "measure (\<lambda>(l, node_stack, labels). sum_list (map (\<lambda>n. 2 * size n + 1) node_stack))")
  show "wf (measure (\<lambda>(l, node_stack, labels). sum_list (map (\<lambda>n. 2 * size n + 1) node_stack)))"
    by simp
next
  fix l :: label and i :: "('a, 'f, 'g) node" and node_stack labels
  show "((l, node_stack, labels @ [(i, attr_label l (attrs i))]), l, i # node_stack, labels)
       \<in> measure (\<lambda>(l, node_stack, labels). sum_list (map (\<lambda>n. 2 * size n + 1) node_stack))"
    by simp
next
  fix l :: label and i :: "('a, 'f, 'g) node" and node_stack and labels :: "(('a, 'f, 'g) node \<times> string) list"
  have "sum_list (map (\<lambda>n. 2 * size n + 1) (predecessor i)) < 2 * size i + 1"
  proof (cases i)
    case (ModelNode a ks ps)
    have "sum_list (map (\<lambda>n. 2 * size n + 1) ps) \<le> 2 * size_list size ps"
      by (induction ps) auto
    with ModelNode show ?thesis by simp
  qed simp_all
  then show "((l, predecessor i @ node_stack, labels), l, i # node_stack, labels)
       \<in> measure (\<lambda>(l, node_stack, labels). sum_list (map (\<lambda>n. 2 * size n + 1) node_stack))"
    by simp
qed


definition get_sub_nodes_label ::
  "label \<Rightarrow> ('a, 'f, 'g) node \<Rightarrow> (('a, 'f, 'g) node \<times> string) list" where
  "get_sub_nodes_label l node = get_sub_nodes_label_loop l [node] []"

text \<open>
  The \<^verbatim>\<open>while node_stack\<close> loop of \<^verbatim>\<open>_get_suffix_mapping\<close>: the state is
  \<open>node_stack\<close>, \<open>label_space\<close> (label to the ids seen with it) and \<open>id_to_str\<close>.
\<close>

function get_suffix_mapping_loop ::
  "label \<Rightarrow> ('a, 'f, 'g) node list \<Rightarrow> (string \<times> string list) list
    \<Rightarrow> (string \<times> string) list \<Rightarrow> (string \<times> string) list" where
  "get_suffix_mapping_loop l [] label_space id_to_str = id_to_str"
| "get_suffix_mapping_loop l (i # node_stack) label_space id_to_str =
    (if \<not> attr_is_operation (attrs i) then
       (let label = attr_label l (attrs i); id' = attr_id (attrs i) in
        case map_of label_space label of
          None \<Rightarrow>
            get_suffix_mapping_loop l node_stack
              (dict_set label_space label [id'])
              (dict_set id_to_str (label @ ''_'' @ id') label)
        | Some same_label_nodes \<Rightarrow>
            if id' \<notin> set same_label_nodes then
              (let same_label_nodes = same_label_nodes @ [id'];
                   num = length same_label_nodes;
                   str' = (case l of Name \<Rightarrow> str_nat num | Fmt \<Rightarrow> ''_'' @ str_nat num)
               in get_suffix_mapping_loop l node_stack
                    (dict_set label_space label same_label_nodes)
                    (dict_set id_to_str (label @ ''_'' @ id') (label @ str')))
            else get_suffix_mapping_loop l node_stack label_space id_to_str)
     else get_suffix_mapping_loop l (predecessor i @ node_stack) label_space id_to_str)"
  by pat_completeness auto
termination
proof (relation "measure (\<lambda>(l, node_stack, label_space, id_to_str).
                   sum_list (map (\<lambda>n. 2 * size n + 1) node_stack))")
  fix l :: label and i :: "('a, 'f, 'g) node" and node_stack
    and label_space :: "(string \<times> string list) list" and id_to_str :: "(string \<times> string) list"
  have "sum_list (map (\<lambda>n. 2 * size n + 1) (predecessor i)) < 2 * size i + 1"
  proof (cases i)
    case (ModelNode a ks ps)
    have "sum_list (map (\<lambda>n. 2 * size n + 1) ps) \<le> 2 * size_list size ps"
      by (induction ps) auto
    with ModelNode show ?thesis by simp
  qed simp_all
  then show "((l, predecessor i @ node_stack, label_space, id_to_str),
              l, i # node_stack, label_space, id_to_str)
       \<in> measure (\<lambda>(l, node_stack, label_space, id_to_str).
                   sum_list (map (\<lambda>n. 2 * size n + 1) node_stack))"
    by simp
qed simp_all

definition get_suffix_mapping :: "label \<Rightarrow> ('a, 'f, 'g) node \<Rightarrow> (string \<times> string) list" where
  "get_suffix_mapping l node = get_suffix_mapping_loop l [node] [] []"

text \<open>
  The state of a \<^verbatim>\<open>LabelSpace\<close> object. \<^verbatim>\<open>_label_space\<close> and \<^verbatim>\<open>_label_map\<close>
  are dictionaries with the two keys \<^verbatim>\<open>'name'\<close> and \<^verbatim>\<open>'fmt'\<close>.
\<close>

record ('a, 'f, 'g) LabelSpace =
  ls_node :: "('a, 'f, 'g) node"
  ls_label_space :: "label \<Rightarrow> (('a, 'f, 'g) node \<times> string) list"
  ls_label_map :: "label \<Rightarrow> (string \<times> string) list"

definition LabelSpace_init :: "('a, 'f, 'g) node \<Rightarrow> ('a, 'f, 'g) LabelSpace" where
  "LabelSpace_init node =
    \<lparr>ls_node = node,
     ls_label_space = (\<lambda>l. get_sub_nodes_label l node),
     ls_label_map = (\<lambda>l. get_suffix_mapping l node)\<rparr>"

text \<open>
  \<^verbatim>\<open>_check_if_label_changed\<close> compares each recorded label with the label its node
  has now, and rebuilds both tables of that label type when one differs.
\<close>

definition check_if_label_changed ::
  "label \<Rightarrow> ('a, 'f, 'g) LabelSpace \<Rightarrow> ('a, 'f, 'g) LabelSpace" where
  "check_if_label_changed l self =
    (if list_ex (\<lambda>(node, recorded). attr_label l (attrs node) \<noteq> recorded)
          (ls_label_space self l)
     then self\<lparr>ls_label_space := (ls_label_space self)(l := get_sub_nodes_label l (ls_node self)),
               ls_label_map := (ls_label_map self)(l := get_suffix_mapping l (ls_node self))\<rparr>
     else self)"

text \<open>
  \<^verbatim>\<open>LabelSpace._label\<close>: the label with ids of the node, with every key of the
  suffix mapping replaced by its value, in the order of the dictionary. The object is
  returned beside the string, since the check can rebuild its tables.
\<close>

definition LabelSpace_label ::
  "label \<Rightarrow> ('a, 'f, 'g) LabelSpace \<Rightarrow> string \<times> ('a, 'f, 'g) LabelSpace" where
  "LabelSpace_label l self =
    (let self = check_if_label_changed l self
     in (fold (\<lambda>(k, v) label. py_replace k v label) (ls_label_map self l)
           (label_with_id l (ls_node self)), self))"

definition LabelSpace_name :: "('a, 'f, 'g) LabelSpace \<Rightarrow> string" where
  "LabelSpace_name self = fst (LabelSpace_label Name self)"

definition LabelSpace_fmt :: "('a, 'f, 'g) LabelSpace \<Rightarrow> string" where
  "LabelSpace_fmt self = fst (LabelSpace_label Fmt self)"

section \<open>Example trees and the specification's vocabulary\<close>

text \<open>
  Leaves and compositions built by the constructors from an empty \<^verbatim>\<open>_UUID\<close>, for
  the concrete instances below. The generator of an example leaf is identified by the
  leaf's name.
\<close>

definition leaf_model ::
  "string \<Rightarrow> string \<Rightarrow> string \<Rightarrow> string \<Rightarrow> bool \<Rightarrow> (int, unit, string) node" where
  "leaf_model node_id name fmt mtype is_ncon =
    projr (fst (ModelNode_init [] node_id name fmt mtype None name is_ncon))"

definition compose ::
  "string \<Rightarrow> (int, unit, string) node \<Rightarrow> string \<Rightarrow> (int, unit, string) node
    \<Rightarrow> (int, unit, string) node" where
  "compose node_id lh op rh = projr (fst (ModelOperationNode_init [] node_id lh rh op))"

text \<open>
  The rows of the specification's composition table for \<^verbatim>\<open>*\<close>, read as the
  specification words them: the result kind and norm flag of an allowed pair of
  operand kinds, \<open>None\<close> for a pair that no row allows.
\<close>

definition star_table :: "string \<Rightarrow> bool \<Rightarrow> string \<Rightarrow> bool \<Rightarrow> (string \<times> bool) option" where
  "star_table kind1 norm1 kind2 norm2 =
    (if kind1 = ''add'' \<and> kind2 = ''add'' then None
     else if kind1 = ''add'' \<and> kind2 = ''con'' then None
     else if kind1 = ''con'' \<and> norm1 \<and> kind2 = ''con'' \<and> norm2 then None
     else if kind1 \<in> {''add'', ''mul''} \<and> kind2 = ''add'' then Some (''add'', False)
     else if kind2 = ''con'' \<and> \<not> (norm1 \<and> norm2) then Some (''con'', norm1 \<or> norm2)
     else if kind1 = ''mul'' \<and> kind2 = ''mul'' then Some (''mul'', False)
     else None)"

text \<open>The invariant of a parameter leaf in the specification's words: the default is
  in the support of the distribution, or equals the fixed constant.\<close>

definition in_domain :: "'a distribution \<Rightarrow> 'a \<Rightarrow> bool" where
  "in_domain dist v = (case dist of Distribution support \<Rightarrow> support v | Number c \<Rightarrow> v = c)"

text \<open>Toy leaf functions with fixed outputs, for the three-leaf tree
  \<^verbatim>\<open>NormConv * (PowerLaw + BlackBody)\<close>.\<close>

definition toy_funcs :: "(int, string) funcs" where
  "toy_funcs g model_name args kwargs =
    (if g = ''PowerLaw'' then Inr (PArray 2)
     else if g = ''BlackBody'' then Inr (PArray 3)
     else (case args of
             [flux_func, PArray flux] \<Rightarrow> Inr (PArray (10 * flux))
           | _ \<Rightarrow> Inl TypeError))"

definition toy_tree :: "(int, unit, string) node" where
  "toy_tree =
    compose ''5d'' (leaf_model ''1f'' ''NormConv'' ''NormConv'' ''con'' True) ''*''
      (compose ''4c'' (leaf_model ''2a'' ''PowerLaw'' ''PL'' ''add'' False) ''+''
                      (leaf_model ''3b'' ''BlackBody'' ''BB'' ''add'' False))"

definition toy_mapping :: "(string \<times> string) list" where
  "toy_mapping =
    [(''NormConv_1f'', ''NormConv''), (''PowerLaw_2a'', ''PowerLaw''),
     (''BlackBody_3b'', ''BlackBody'')]"

definition toy_params :: "(int, string) pyval" where
  "toy_params =
    PDict [(''NormConv'', PDict []), (''PowerLaw'', PDict []), (''BlackBody'', PDict [])]"

section \<open>Facts about the constructors\<close>

lemma attrs_mtype_model: "attrs_mtype n = Inr m \<Longrightarrow> type_of n = ''model''"
  by (cases n) auto

lemma check_type_model:
  "attrs_mtype lh = Inr m1 \<Longrightarrow> attrs_mtype rh = Inr m2 \<Longrightarrow> op \<in> {''+'', ''*''}
    \<Longrightarrow> check_type lh rh op = Inr ''model''"
  by (simp add: check_type_def attrs_mtype_model)

lemma validate_input_error: "validate_input dist det = Inl e \<Longrightarrow> e = ValueError"
  by (auto simp: validate_input_def
      split: option.splits obj.splits list.splits if_splits)

lemma validate_default_in_domain:
  "validate_default dist d = (if in_domain dist d then Inr () else Inl ValueError)"
  by (auto simp: validate_default_def in_domain_def split: distribution.splits)

lemma default_of_parameter: "default_of p = Inr x \<Longrightarrow> type_of p = ''parameter''"
  by (cases p) auto

lemmas example_defs = leaf_model_def compose_def ModelNode_init_def Node_init_def
  ModelOperationNode_init_def OperationNode_init_def check_type_def check_operands_def
  determine_mtype_def Let_def attr_label_def

section \<open>The issued-id registry\<close>

text \<open>
  C1. The claim: construction records every issued id in \<^verbatim>\<open>_UUID\<close>, and a
  construction that draws an id issued before fails. In the code the registry is read
  and never written. Two parameter leaves are created one after the other, both
  drawing the same id, the second from the registry the first left behind: the
  registry is still empty after the first, and the second succeeds.
\<close>

theorem uuid_collision_undetected:
  "ParameterNode_init [] ''7d3e0c1a9b2f4e5d8c6a1b0f9e8d7c6b'' ''alpha'' ''alpha''
      (1::int) (Number 1) None
    = (Inr (ParameterNode
         \<lparr>attr_name = ''alpha'', attr_fmt = ''alpha'', attr_type = ''parameter'',
          attr_is_operation = False, attr_id = ''7d3e0c1a9b2f4e5d8c6a1b0f9e8d7c6b'',
          attr_default = 1, attr_distribution = Number 1,
          attr_deterministic = None\<rparr>) :: error + (int, unit, unit) node, []) \<and>
   \<not> isl (fst (ParameterNode_init
      (snd (ParameterNode_init [] ''7d3e0c1a9b2f4e5d8c6a1b0f9e8d7c6b'' ''alpha'' ''alpha''
              (1::int) (Number 1) None :: (error + (int, unit, unit) node) \<times> string list))
      ''7d3e0c1a9b2f4e5d8c6a1b0f9e8d7c6b'' ''beta'' ''beta'' (2::int) (Number 2) None
        :: (error + (int, unit, unit) node) \<times> string list))"
  by (simp add: ParameterNode_init_def validate_input_def validate_default_def Node_init_def)

section \<open>The composition algebra\<close>

text \<open>
  C3, as the claim states it, fails: the claim's own example of a pair in no allowed
  row, a convolution on the left of an additive model, is accepted by the constructor.
\<close>

theorem con_times_add_counterexample:
  "star_table ''con'' False ''add'' False = None \<and>
   \<not> isl (fst (ModelOperationNode_init [] ''0b9c0f3e5d6a4c7e8f1a2b3c4d5e6f70''
      (leaf_model ''5f0c1d2e3a4b4c6d8e7f9a0b1c2d3e4f'' ''RestFrame'' ''RestFrame'' ''con'' False)
      (leaf_model ''a1b2c3d4e5f647a8b9c0d1e2f3a4b5c6'' ''PowerLaw'' ''PL'' ''add'' False)
      ''*''))"
  by (simp add: star_table_def example_defs)

text \<open>
  C3, amended. For two model nodes with kinds \<open>m1\<close>, \<open>m2\<close> and norm flags \<open>n1\<close>,
  \<open>n2\<close>, and an id not in the registry, \<^verbatim>\<open>lh * rh\<close> fails exactly when the left
  operand is additive and the right one additive or convolution, or when both carry
  the norm flag. Otherwise it succeeds; the result is additive when either operand is
  additive, else convolution when either is convolution, with the norm flag iff either
  operand has it, else multiplicative.
\<close>

theorem star_composition_rule:
  "attrs_mtype lh = Inr m1 \<and> attrs_is_ncon lh = Inr n1 \<and>
   attrs_mtype rh = Inr m2 \<and> attrs_is_ncon rh = Inr n2 \<and> node_id \<notin> set UUID \<longrightarrow>
   (if (m1 = ''add'' \<and> (m2 = ''add'' \<or> m2 = ''con'')) \<or> (n1 \<and> n2)
    then ModelOperationNode_init UUID node_id lh rh ''*'' = (Inl TypeError, UUID)
    else (\<exists>c. ModelOperationNode_init UUID node_id lh rh ''*'' = (Inr c, UUID) \<and>
            attrs_mtype c =
              Inr (if m1 = ''add'' \<or> m2 = ''add'' then ''add''
                   else if m1 = ''con'' \<or> m2 = ''con'' then ''con'' else ''mul'') \<and>
            attrs_is_ncon c =
              Inr (m1 \<noteq> ''add'' \<and> m2 \<noteq> ''add'' \<and> (m1 = ''con'' \<or> m2 = ''con'')
                   \<and> (n1 \<or> n2))))"
  by (auto simp: ModelOperationNode_init_def check_type_model check_operands_def
      determine_mtype_def OperationNode_init_def Node_init_def Let_def)

theorem star_composition_rule_witness:
  "attrs_mtype (leaf_model ''5f0c'' ''RestFrame'' ''RestFrame'' ''con'' True) = Inr ''con'' \<and>
   attrs_is_ncon (leaf_model ''5f0c'' ''RestFrame'' ''RestFrame'' ''con'' True) = Inr True \<and>
   attrs_mtype (leaf_model ''a1b2'' ''PowerLaw'' ''PL'' ''add'' False) = Inr ''add'' \<and>
   attrs_is_ncon (leaf_model ''a1b2'' ''PowerLaw'' ''PL'' ''add'' False) = Inr False \<and>
   ''0b9c'' \<notin> set ([] :: string list) \<and>
   (\<exists>c. ModelOperationNode_init [] ''0b9c''
           (leaf_model ''5f0c'' ''RestFrame'' ''RestFrame'' ''con'' True)
           (leaf_model ''a1b2'' ''PowerLaw'' ''PL'' ''add'' False) ''*'' = (Inr c, []) \<and>
         attrs_mtype c = Inr ''add'' \<and> attrs_is_ncon c = Inr False)"
proof -
  have h: "attrs_mtype (leaf_model ''5f0c'' ''RestFrame'' ''RestFrame'' ''con'' True) = Inr ''con'' \<and>
   attrs_is_ncon (leaf_model ''5f0c'' ''RestFrame'' ''RestFrame'' ''con'' True) = Inr True \<and>
   attrs_mtype (leaf_model ''a1b2'' ''PowerLaw'' ''PL'' ''add'' False) = Inr ''add'' \<and>
   attrs_is_ncon (leaf_model ''a1b2'' ''PowerLaw'' ''PL'' ''add'' False) = Inr False \<and>
   ''0b9c'' \<notin> set ([] :: string list)"
    by (simp add: leaf_model_def ModelNode_init_def Node_init_def)
  from h star_composition_rule
    [of "leaf_model ''5f0c'' ''RestFrame'' ''RestFrame'' ''con'' True" "''con''" True
        "leaf_model ''a1b2'' ''PowerLaw'' ''PL'' ''add'' False" "''add''" False
        "''0b9c''" "[]"]
  show ?thesis by simp
qed

text \<open>
  C5. For two model nodes of kind additive, \<^verbatim>\<open>*\<close> raises a \<^verbatim>\<open>TypeError\<close> and
  leaves the registry as it was, and \<^verbatim>\<open>+\<close>, drawing an id that is not in the
  registry, returns a node of kind additive.
\<close>

theorem additive_times_raises_plus_succeeds:
  "attrs_mtype lh = Inr ''add'' \<and> attrs_mtype rh = Inr ''add'' \<longrightarrow>
     ModelOperationNode_init UUID node_id lh rh ''*'' = (Inl TypeError, UUID) \<and>
     (node_id \<notin> set UUID \<longrightarrow>
       (\<exists>c. ModelOperationNode_init UUID node_id lh rh ''+'' = (Inr c, UUID)
          \<and> attrs_mtype c = Inr ''add''))"
  by (auto simp: ModelOperationNode_init_def check_type_model check_operands_def
      determine_mtype_def OperationNode_init_def Node_init_def Let_def)

theorem additive_times_raises_plus_succeeds_witness:
  "attrs_mtype (leaf_model ''c7d8'' ''PowerLaw'' ''PL'' ''add'' False) = Inr ''add'' \<and>
   attrs_mtype (leaf_model ''e9f0'' ''BlackBody'' ''BB'' ''add'' False) = Inr ''add'' \<and>
   ''1a2b'' \<notin> set ([] :: string list) \<and>
   ModelOperationNode_init [] ''1a2b''
     (leaf_model ''c7d8'' ''PowerLaw'' ''PL'' ''add'' False)
     (leaf_model ''e9f0'' ''BlackBody'' ''BB'' ''add'' False) ''*'' = (Inl TypeError, []) \<and>
   (\<exists>c. ModelOperationNode_init [] ''1a2b''
     (leaf_model ''c7d8'' ''PowerLaw'' ''PL'' ''add'' False)
     (leaf_model ''e9f0'' ''BlackBody'' ''BB'' ''add'' False) ''+'' = (Inr c, []) \<and>
     attrs_mtype c = Inr ''add'')"
proof -
  have h: "attrs_mtype (leaf_model ''c7d8'' ''PowerLaw'' ''PL'' ''add'' False) = Inr ''add'' \<and>
   attrs_mtype (leaf_model ''e9f0'' ''BlackBody'' ''BB'' ''add'' False) = Inr ''add''"
    by (simp add: leaf_model_def ModelNode_init_def Node_init_def)
  have n: "''1a2b'' \<notin> set ([] :: string list)" by simp
  from h n additive_times_raises_plus_succeeds
    [of "leaf_model ''c7d8'' ''PowerLaw'' ''PL'' ''add'' False"
        "leaf_model ''e9f0'' ''BlackBody'' ''BB'' ''add'' False" "[]" "''1a2b''"]
  show ?thesis by blast
qed

text \<open>
  C6. For two model nodes that are both norm-convolution (kind convolution with the
  norm flag), \<^verbatim>\<open>lh * rh\<close> raises a \<^verbatim>\<open>TypeError\<close>. The hypothesis is symmetric in
  the operands, so this is so in either order.
\<close>

theorem ncon_times_ncon_raises:
  "attrs_mtype lh = Inr ''con'' \<and> attrs_is_ncon lh = Inr True \<and>
   attrs_mtype rh = Inr ''con'' \<and> attrs_is_ncon rh = Inr True \<longrightarrow>
     ModelOperationNode_init UUID node_id lh rh ''*'' = (Inl TypeError, UUID) \<and>
     ModelOperationNode_init UUID node_id rh lh ''*'' = (Inl TypeError, UUID)"
  by (auto simp: ModelOperationNode_init_def check_type_model check_operands_def)

theorem ncon_times_ncon_raises_witness:
  "attrs_mtype (leaf_model ''3c4d'' ''RestFrame'' ''RestFrame'' ''con'' True) = Inr ''con'' \<and>
   attrs_is_ncon (leaf_model ''3c4d'' ''RestFrame'' ''RestFrame'' ''con'' True) = Inr True \<and>
   attrs_mtype (leaf_model ''5e6f'' ''EnFlux'' ''EnFlux'' ''con'' True) = Inr ''con'' \<and>
   attrs_is_ncon (leaf_model ''5e6f'' ''EnFlux'' ''EnFlux'' ''con'' True) = Inr True \<and>
   ModelOperationNode_init [] ''7a8b''
     (leaf_model ''3c4d'' ''RestFrame'' ''RestFrame'' ''con'' True)
     (leaf_model ''5e6f'' ''EnFlux'' ''EnFlux'' ''con'' True) ''*'' = (Inl TypeError, []) \<and>
   ModelOperationNode_init [] ''7a8b''
     (leaf_model ''5e6f'' ''EnFlux'' ''EnFlux'' ''con'' True)
     (leaf_model ''3c4d'' ''RestFrame'' ''RestFrame'' ''con'' True) ''*'' = (Inl TypeError, [])"
proof -
  have h: "attrs_mtype (leaf_model ''3c4d'' ''RestFrame'' ''RestFrame'' ''con'' True) = Inr ''con'' \<and>
   attrs_is_ncon (leaf_model ''3c4d'' ''RestFrame'' ''RestFrame'' ''con'' True) = Inr True \<and>
   attrs_mtype (leaf_model ''5e6f'' ''EnFlux'' ''EnFlux'' ''con'' True) = Inr ''con'' \<and>
   attrs_is_ncon (leaf_model ''5e6f'' ''EnFlux'' ''EnFlux'' ''con'' True) = Inr True"
    by (simp add: leaf_model_def ModelNode_init_def Node_init_def)
  from h ncon_times_ncon_raises
    [of "leaf_model ''3c4d'' ''RestFrame'' ''RestFrame'' ''con'' True"
        "leaf_model ''5e6f'' ''EnFlux'' ''EnFlux'' ''con'' True" "[]" "''7a8b''"]
  show ?thesis by blast
qed

section \<open>Parameter defaults\<close>

text \<open>
  C7. (1) A successful construction of a parameter leaf stores the given default and
  distribution, and the default is in the domain of the distribution: in its support,
  or equal to the constant. (2) A construction whose default is outside the domain
  raises a \<^verbatim>\<open>ValueError\<close>. (3) A successful assignment to \<^verbatim>\<open>default\<close> stores the
  converted value, keeps the distribution, and the stored default is in the domain.
  (4) An assignment whose converted value is outside the domain raises a
  \<^verbatim>\<open>ValueError\<close> and leaves the leaf as it was.
\<close>

theorem parameter_default_invariant:
  "(\<forall>(n :: ('a, 'f, 'g) node) U.
      ParameterNode_init UUID node_id name fmt d dist det = (Inr n, U) \<longrightarrow>
      (\<exists>a. n = ParameterNode a \<and> attr_default a = d \<and> attr_distribution a = dist
            \<and> in_domain (attr_distribution a) (attr_default a))) \<and>
   (\<not> in_domain dist d \<longrightarrow>
      ParameterNode_init UUID node_id name fmt d dist det
        = ((Inl ValueError, UUID) :: (error + ('a, 'f, 'g) node) \<times> string list)) \<and>
   (\<forall>self'. default_setter float_of self v = (Inr (), self') \<longrightarrow>
      attr_default self' = float_of v \<and> attr_distribution self' = attr_distribution self
      \<and> in_domain (attr_distribution self') (attr_default self')) \<and>
   (\<not> in_domain (attr_distribution self) (float_of v) \<longrightarrow>
      default_setter float_of self v = (Inl ValueError, self))"
proof (intro conjI allI impI)
  fix n :: "('a, 'f, 'g) node" and U
  assume "ParameterNode_init UUID node_id name fmt d dist det = (Inr n, U)"
  then show "\<exists>a. n = ParameterNode a \<and> attr_default a = d \<and> attr_distribution a = dist
            \<and> in_domain (attr_distribution a) (attr_default a)"
    by (auto simp: ParameterNode_init_def validate_default_in_domain Node_init_def
        split: sum.splits if_splits)
next
  assume "\<not> in_domain dist d"
  then show "ParameterNode_init UUID node_id name fmt d dist det
        = ((Inl ValueError, UUID) :: (error + ('a, 'f, 'g) node) \<times> string list)"
    by (auto simp: ParameterNode_init_def validate_default_in_domain
        dest: validate_input_error split: sum.splits)
next
  fix self'
  assume h: "default_setter float_of self v = (Inr (), self')"
  then show "attr_default self' = float_of v"
    by (auto simp: default_setter_def validate_default_in_domain Let_def split: if_splits)
  from h show "attr_distribution self' = attr_distribution self"
    by (auto simp: default_setter_def validate_default_in_domain Let_def split: if_splits)
  from h show "in_domain (attr_distribution self') (attr_default self')"
    by (auto simp: default_setter_def validate_default_in_domain Let_def split: if_splits)
next
  assume "\<not> in_domain (attr_distribution self) (float_of v)"
  then show "default_setter float_of self v = (Inl ValueError, self)"
    by (simp add: default_setter_def validate_default_in_domain Let_def)
qed

text \<open>
  An instance: a leaf with support \<open>[0, 5]\<close> and default 1 is constructed; default 7
  is refused at construction; assigning 3 succeeds and assigning 9 fails, leaving the
  leaf unchanged.
\<close>

theorem parameter_default_invariant_witness:
  "ParameterNode_init [] ''9e8d'' ''alpha'' ''alpha'' (1::int)
      (Distribution (\<lambda>x. 0 \<le> x \<and> x \<le> 5)) None
    = (Inr (ParameterNode
         \<lparr>attr_name = ''alpha'', attr_fmt = ''alpha'', attr_type = ''parameter'',
          attr_is_operation = False, attr_id = ''9e8d'', attr_default = 1,
          attr_distribution = Distribution (\<lambda>x. 0 \<le> x \<and> x \<le> 5),
          attr_deterministic = None\<rparr>) :: error + (int, unit, unit) node, []) \<and>
   in_domain (Distribution (\<lambda>x. 0 \<le> x \<and> x \<le> 5)) (1::int) \<and>
   \<not> in_domain (Distribution (\<lambda>x. 0 \<le> x \<and> x \<le> 5)) (7::int) \<and>
   ParameterNode_init [] ''9e8d'' ''alpha'' ''alpha'' (7::int)
      (Distribution (\<lambda>x. 0 \<le> x \<and> x \<le> 5)) None
    = (Inl ValueError :: error + (int, unit, unit) node, []) \<and>
   default_setter (\<lambda>x. x)
      \<lparr>attr_name = ''alpha'', attr_fmt = ''alpha'', attr_type = ''parameter'',
       attr_is_operation = False, attr_id = ''9e8d'', attr_default = (1::int),
       attr_distribution = Distribution (\<lambda>x. 0 \<le> x \<and> x \<le> 5),
       attr_deterministic = (None :: unit obj option)\<rparr> 3
    = (Inr (),
       \<lparr>attr_name = ''alpha'', attr_fmt = ''alpha'', attr_type = ''parameter'',
        attr_is_operation = False, attr_id = ''9e8d'', attr_default = 3,
        attr_distribution = Distribution (\<lambda>x. 0 \<le> x \<and> x \<le> 5),
        attr_deterministic = None\<rparr>) \<and>
   default_setter (\<lambda>x. x)
      \<lparr>attr_name = ''alpha'', attr_fmt = ''alpha'', attr_type = ''parameter'',
       attr_is_operation = False, attr_id = ''9e8d'', attr_default = (1::int),
       attr_distribution = Distribution (\<lambda>x. 0 \<le> x \<and> x \<le> 5),
       attr_deterministic = (None :: unit obj option)\<rparr> 9
    = (Inl ValueError,
       \<lparr>attr_name = ''alpha'', attr_fmt = ''alpha'', attr_type = ''parameter'',
        attr_is_operation = False, attr_id = ''9e8d'', attr_default = 1,
        attr_distribution = Distribution (\<lambda>x. 0 \<le> x \<and> x \<le> 5),
        attr_deterministic = None\<rparr>)"
proof -
  let ?dist = "Distribution (\<lambda>x::int. 0 \<le> x \<and> x \<le> 5)"
  let ?self = "\<lparr>attr_name = ''alpha'', attr_fmt = ''alpha'', attr_type = ''parameter'',
       attr_is_operation = False, attr_id = ''9e8d'', attr_default = (1::int),
       attr_distribution = ?dist, attr_deterministic = (None :: unit obj option)\<rparr>"
  have ok: "in_domain ?dist 1" and bad: "\<not> in_domain ?dist 7"
    and bad': "\<not> in_domain (attr_distribution ?self) ((\<lambda>x. x) 9)"
    by (simp_all add: in_domain_def)
  have made: "ParameterNode_init [] ''9e8d'' ''alpha'' ''alpha'' (1::int) ?dist None
    = (Inr (ParameterNode ?self) :: error + (int, unit, unit) node, [])"
    by (simp add: ParameterNode_init_def validate_input_def validate_default_def Node_init_def)
  have set3: "default_setter (\<lambda>x. x) ?self 3 = (Inr (), ?self\<lparr>attr_default := 3\<rparr>)"
    by (simp add: default_setter_def validate_default_def)
  note inst7 = parameter_default_invariant
    [of "[]" "''9e8d''" "''alpha''" "''alpha''" 7 ?dist None "\<lambda>x. x" ?self 9,
     where ?'g = unit]
  from inst7 bad
  have refused: "ParameterNode_init [] ''9e8d'' ''alpha'' ''alpha'' (7::int) ?dist None
    = (Inl ValueError :: error + (int, unit, unit) node, [])"
    by blast
  from inst7 bad'
  have kept: "default_setter (\<lambda>x. x) ?self 9 = (Inl ValueError, ?self)"
    by blast
  from ok bad made set3 refused kept show ?thesis by simp
qed

text \<open>
  C8. For parameter-typed operands with defaults \<open>x\<close> and \<open>y\<close> and an id not in
  the registry, the node built with \<^verbatim>\<open>+\<close> has default \<open>x + y\<close> and the node built
  with \<^verbatim>\<open>*\<close> has default \<open>x * y\<close>. The attributes of the composite hold no
  default: read beside operands in any later state \<open>p'\<close>, \<open>q'\<close>, the same
  composite gives the sum or product of their defaults at that moment.
\<close>

theorem composite_default:
  "default_of p = Inr x \<and> default_of q = Inr y \<and> node_id \<notin> set UUID \<longrightarrow>
   (\<exists>c. ParameterOperationNode_init UUID node_id p q ''+'' = (Inr c, UUID) \<and>
      default_of c = Inr (x + y) \<and>
      (\<forall>p' q' x' y'. default_of p' = Inr x' \<and> default_of q' = Inr y' \<longrightarrow>
          default_of (ParameterOperationNode (attrs c) p' q') = Inr (x' + y'))) \<and>
   (\<exists>c. ParameterOperationNode_init UUID node_id p q ''*'' = (Inr c, UUID) \<and>
      default_of c = Inr (x * y) \<and>
      (\<forall>p' q' x' y'. default_of p' = Inr x' \<and> default_of q' = Inr y' \<longrightarrow>
          default_of (ParameterOperationNode (attrs c) p' q') = Inr (x' * y')))"
  by (auto simp: ParameterOperationNode_init_def OperationNode_init_def check_type_def
      Node_init_def default_of_parameter)

text \<open>
  An instance: leaves with defaults 2 and 5 give 7 and 10; after the left leaf's
  default is set to 4, the sum node gives 9.
\<close>

theorem composite_default_witness:
  "default_of (ParameterNode
      \<lparr>attr_name = ''a'', attr_fmt = ''a'', attr_type = ''parameter'',
       attr_is_operation = False, attr_id = ''01ab'', attr_default = (2::int),
       attr_distribution = Number 2, attr_deterministic = (None :: unit obj option)\<rparr>
      :: (int, unit, unit) node) = Inr 2 \<and>
   default_of (ParameterNode
      \<lparr>attr_name = ''b'', attr_fmt = ''b'', attr_type = ''parameter'',
       attr_is_operation = False, attr_id = ''02cd'', attr_default = (5::int),
       attr_distribution = Distribution (\<lambda>x. 0 \<le> x), attr_deterministic = (None :: unit obj option)\<rparr>
      :: (int, unit, unit) node) = Inr 5 \<and>
   ''03ef'' \<notin> set ([] :: string list) \<and>
   (\<exists>c. ParameterOperationNode_init [] ''03ef''
        (ParameterNode
          \<lparr>attr_name = ''a'', attr_fmt = ''a'', attr_type = ''parameter'',
           attr_is_operation = False, attr_id = ''01ab'', attr_default = (2::int),
           attr_distribution = Number 2, attr_deterministic = (None :: unit obj option)\<rparr>)
        (ParameterNode
          \<lparr>attr_name = ''b'', attr_fmt = ''b'', attr_type = ''parameter'',
           attr_is_operation = False, attr_id = ''02cd'', attr_default = (5::int),
           attr_distribution = Distribution (\<lambda>x. 0 \<le> x),
           attr_deterministic = (None :: unit obj option)\<rparr>) ''+''
      = (Inr (c :: (int, unit, unit) node), []) \<and> default_of c = Inr 7)"
proof -
  let ?p = "ParameterNode
      \<lparr>attr_name = ''a'', attr_fmt = ''a'', attr_type = ''parameter'',
       attr_is_operation = False, attr_id = ''01ab'', attr_default = (2::int),
       attr_distribution = Number 2, attr_deterministic = (None :: unit obj option)\<rparr>
      :: (int, unit, unit) node"
  let ?q = "ParameterNode
      \<lparr>attr_name = ''b'', attr_fmt = ''b'', attr_type = ''parameter'',
       attr_is_operation = False, attr_id = ''02cd'', attr_default = (5::int),
       attr_distribution = Distribution (\<lambda>x. 0 \<le> x), attr_deterministic = (None :: unit obj option)\<rparr>
      :: (int, unit, unit) node"
  have h: "default_of ?p = Inr 2 \<and> default_of ?q = Inr 5 \<and> ''03ef'' \<notin> set ([] :: string list)"
    by simp
  from h composite_default [of ?p 2 ?q 5 "''03ef''" "[]"]
  have "\<exists>c. ParameterOperationNode_init [] ''03ef'' ?p ?q ''+'' = (Inr c, []) \<and>
      default_of c = Inr (2 + 5)"
    by blast
  with h show ?thesis by simp
qed

section \<open>Compiled evaluators\<close>

lemma determine_mtype_kind:
  "determine_mtype lh rh m1 m2 = Inr (m, nc) \<Longrightarrow>
   m = (if m1 = ''add'' \<or> m2 = ''add'' then ''add''
        else if m1 = ''con'' \<or> m2 = ''con'' then ''con'' else ''mul'')"
  by (cases "attrs_is_ncon lh"; cases "attrs_is_ncon rh")
     (auto simp: determine_mtype_def split: if_splits)

lemma OperationNode_init_name:
  "OperationNode_init U i ty lh rh op = (Inr a, U') \<Longrightarrow> attr_name a = op"
  by (cases "check_type lh rh op")
     (auto simp: OperationNode_init_def Node_init_def split: if_splits)

lemma ModelOperationNode_init_result:
  assumes "ModelOperationNode_init U i lh rh op = (Inr n, U')"
  shows "\<exists>a m1 m2. n = ModelOperationNode a lh rh \<and> attr_name a = op \<and>
     attrs_mtype lh = Inr m1 \<and> attrs_mtype rh = Inr m2 \<and>
     attr_mtype a = (if m1 = ''add'' \<or> m2 = ''add'' then ''add''
                     else if m1 = ''con'' \<or> m2 = ''con'' then ''con'' else ''mul'')"
proof (cases "check_type lh rh op")
  case (Inl e)
  with assms show ?thesis by (simp add: ModelOperationNode_init_def)
next
  case ct: (Inr t)
  show ?thesis
  proof (cases "attrs_mtype lh")
    case (Inl e)
    with assms ct show ?thesis by (simp add: ModelOperationNode_init_def)
  next
    case m1: (Inr m1)
    show ?thesis
    proof (cases "attrs_mtype rh")
      case (Inl e)
      with assms ct m1 show ?thesis by (simp add: ModelOperationNode_init_def)
    next
      case m2: (Inr m2)
      show ?thesis
      proof (cases "check_operands lh rh op m1 m2")
        case (Inl e)
        with assms ct m1 m2 show ?thesis by (simp add: ModelOperationNode_init_def)
      next
        case co: (Inr u)
        show ?thesis
        proof (cases "determine_mtype lh rh m1 m2")
          case (Inl e)
          with assms ct m1 m2 co show ?thesis by (simp add: ModelOperationNode_init_def)
        next
          case (Inr mk)
          obtain m nc where mk: "mk = (m, nc)" by (cases mk)
          note dm = Inr [unfolded mk]
          obtain r U'' where on: "OperationNode_init U i ''model'' lh rh op = (r, U'')"
            by (cases "OperationNode_init U i ''model'' lh rh op")
          show ?thesis
          proof (cases r)
            case (Inl e)
            with assms ct m1 m2 co dm on show ?thesis
              by (simp add: ModelOperationNode_init_def)
          next
            case (Inr a)
            from on Inr have nm: "attr_name a = op"
              by (auto dest: OperationNode_init_name)
            define base where "base =
              \<lparr>attr_name = attr_name a, attr_fmt = attr_fmt a, attr_type = attr_type a,
               attr_is_operation = attr_is_operation a, attr_id = attr_id a,
               attr_mtype = m, attr_is_ncon = nc\<rparr>"
            define self where "self =
              (if \<not> is_ModelOperationNode lh \<and> attrs_mtype lh = Inr ''con''
               then base\<lparr>attr_fmt := ''*''\<rparr> else base)"
            from assms ct m1 m2 co dm on Inr
            have n: "n = ModelOperationNode self lh rh"
              by (cases "\<not> is_ModelOperationNode lh \<and> m1 = ''con''")
                 (auto simp: ModelOperationNode_init_def Let_def self_def base_def)
            have "attr_name self = op" "attr_mtype self = m"
              by (simp_all add: self_def base_def nm)
            with n m1 m2 determine_mtype_kind [OF dm] show ?thesis
              by blast
          qed
        qed
      qed
    qed
  qed
qed

text \<open>
  C2. The claim: every evaluator takes its arguments in the order (params, energy
  grid, flux, flux evaluator), in particular the one compiled for a norm-convolution
  leaf times a multiplicative leaf. \<^verbatim>\<open>wrapper_ncon_mul\<close> is the one wrapper declared
  as \<^verbatim>\<open>(e, p, f, ff)\<close>. For the tree \<^verbatim>\<open>NormConv * PhAbs\<close>, \<^verbatim>\<open>generate_func\<close>
  returns that wrapper, and calling it in the uniform order, with a dictionary of
  parameters first and an array as energy grid second, raises whatever the leaf
  functions, the parameters and the fluxes are: the norm-convolution leaf is handed
  the energy grid as its parameters.
\<close>

theorem ncon_mul_evaluator_raises:
  "generate_func
     [(''NormConv_1f'', ''NormConv''), (''PhAbs_2e'', ''PhAbs'')]
     (compose ''3d'' (leaf_model ''1f'' ''NormConv'' ''NormConv'' ''con'' True) ''*''
                     (leaf_model ''2e'' ''PhAbs'' ''PhAbs'' ''mul'' False))
     = Inr (Wrapper_ncon_mul (Wrapper_ncon ''NormConv'' ''NormConv'')
                             (Wrapper_mul ''PhAbs'' ''PhAbs'')) \<and>
   isl (call funcs
          (Wrapper_ncon_mul (Wrapper_ncon ''NormConv'' ''NormConv'')
                            (Wrapper_mul ''PhAbs'' ''PhAbs''))
          [PDict params, PArray egrid, flux, flux_func])"
  by (auto simp: example_defs call_func_def split: sum.splits pyval.splits)

text \<open>
  C4. \<open>T\<close> is \<^verbatim>\<open>A * (B + C)\<close> with \<open>A\<close> a norm-convolution leaf and \<open>B\<close>, \<open>C\<close>
  additive leaves, all named in \<open>mapping\<close>. The five evaluators compile. For every
  family of leaf functions, every first two arguments and any further ones, the
  evaluator of \<open>B + C\<close> adds the outputs of \<open>B\<close> and \<open>C\<close>, and the evaluator of
  \<open>T\<close> is \<open>A\<close>'s evaluator given that sum as flux and the evaluator of \<open>B + C\<close>
  as flux evaluator; an exception of a sub-evaluator propagates. In particular, when
  the leaf functions of \<open>B\<close> and \<open>C\<close> return the constants \<open>vb\<close> and \<open>vc\<close> and
  the parameters hold an entry for each, the result of \<open>T\<close> equals that of \<open>A\<close>'s
  evaluator applied with flux \<open>vb + vc\<close> and the compiled \<open>B + C\<close>.
\<close>

theorem ncon_times_sum_evaluator:
  "(A :: ('a, 'f, 'g) node) = ModelNode a ksA psA \<and> attr_mtype a = ''con'' \<and>
   attr_is_ncon a \<and>
   B = ModelNode b ksB psB \<and> attr_mtype b = ''add'' \<and>
   C = ModelNode c ksC psC \<and> attr_mtype c = ''add'' \<and>
   ModelOperationNode_init U1 i1 B C ''+'' = (Inr BC, U2) \<and>
   ModelOperationNode_init U3 i2 A BC ''*'' = (Inr T, U4) \<and>
   map_of mapping (label_with_id Name A) = Some nA \<and>
   map_of mapping (label_with_id Name B) = Some nB \<and>
   map_of mapping (label_with_id Name C) = Some nC \<longrightarrow>
   (\<exists>(F :: ('v::{plus,times}, 'g) closure) G FA FB FC.
      generate_func mapping T = Inr F \<and> generate_func mapping BC = Inr G \<and>
      generate_func mapping A = Inr FA \<and> generate_func mapping B = Inr FB \<and>
      generate_func mapping C = Inr FC \<and>
      (\<forall>funcs p e rest.
         call funcs G (p # e # rest) =
           (case call funcs FB [p, e] of
              Inl er \<Rightarrow> Inl er
            | Inr x \<Rightarrow>
               (case call funcs FC [p, e] of Inl er \<Rightarrow> Inl er | Inr y \<Rightarrow> py_add x y)) \<and>
         call funcs F (p # e # rest) =
           (case call funcs G [p, e] of
              Inl er \<Rightarrow> Inl er
            | Inr flux \<Rightarrow> call funcs FA [p, e, flux, PFunc G])) \<and>
      (\<forall>funcs p e rest vb vc kwB kwC.
         (\<forall>args kwargs. funcs (attr_func_generator b) nB args kwargs = Inr (PArray vb)) \<and>
         (\<forall>args kwargs. funcs (attr_func_generator c) nC args kwargs = Inr (PArray vc)) \<and>
         subscript p nB = Inr (PDict kwB) \<and> subscript p nC = Inr (PDict kwC) \<longrightarrow>
         call funcs FB [p, e] = Inr (PArray vb) \<and>
         call funcs FC [p, e] = Inr (PArray vc) \<and>
         call funcs F (p # e # rest) =
           call funcs FA [p, e, PArray (vb + vc), PFunc G]))"
proof (intro impI, elim conjE)
  assume A: "A = ModelNode a ksA psA" and a: "attr_mtype a = ''con''" "attr_is_ncon a"
    and B: "B = ModelNode b ksB psB" and b: "attr_mtype b = ''add''"
    and C: "C = ModelNode c ksC psC" and c: "attr_mtype c = ''add''"
    and BC: "ModelOperationNode_init U1 i1 B C ''+'' = (Inr BC, U2)"
    and T: "ModelOperationNode_init U3 i2 A BC ''*'' = (Inr T, U4)"
    and nA: "map_of mapping (label_with_id Name A) = Some nA"
    and nB: "map_of mapping (label_with_id Name B) = Some nB"
    and nC: "map_of mapping (label_with_id Name C) = Some nC"
  from ModelOperationNode_init_result [OF BC] B C b c
  obtain s where s: "BC = ModelOperationNode s B C" "attr_name s = ''+''" "attr_mtype s = ''add''"
    by auto
  from ModelOperationNode_init_result [OF T] A a s
  obtain t where t: "T = ModelOperationNode t A BC" "attr_name t = ''*''"
    by auto
  let ?FA = "Wrapper_ncon (attr_func_generator a) nA :: ('v, 'g) closure"
  let ?FB = "Wrapper_add (attr_func_generator b) nB :: ('v, 'g) closure"
  let ?FC = "Wrapper_add (attr_func_generator c) nC :: ('v, 'g) closure"
  let ?G = "Wrapper_add_add ?FB ?FC"
  let ?F = "Wrapper_ncon_add ?FA ?G"
  have gA: "generate_func mapping A = Inr ?FA"
    using nA a unfolding A by simp
  have gB: "generate_func mapping B = Inr ?FB"
    using nB b unfolding B by simp
  have gC: "generate_func mapping C = Inr ?FC"
    using nC c unfolding C by simp
  have gG: "generate_func mapping BC = Inr ?G"
    using gB gC s B C b c by simp
  have gT: "generate_func mapping T = Inr ?F"
    using gA gG t s A a by simp
  have run: "\<forall>funcs p e rest.
         call funcs ?G (p # e # rest) =
           (case call funcs ?FB [p, e] of
              Inl er \<Rightarrow> Inl er
            | Inr x \<Rightarrow>
               (case call funcs ?FC [p, e] of Inl er \<Rightarrow> Inl er | Inr y \<Rightarrow> py_add x y)) \<and>
         call funcs ?F (p # e # rest) =
           (case call funcs ?G [p, e] of
              Inl er \<Rightarrow> Inl er
            | Inr flux \<Rightarrow> call funcs ?FA [p, e, flux, PFunc ?G])"
    by simp
  have const: "\<forall>funcs p e rest vb vc kwB kwC.
         (\<forall>args kwargs. funcs (attr_func_generator b) nB args kwargs = Inr (PArray vb)) \<and>
         (\<forall>args kwargs. funcs (attr_func_generator c) nC args kwargs = Inr (PArray vc)) \<and>
         subscript p nB = Inr (PDict kwB) \<and> subscript p nC = Inr (PDict kwC) \<longrightarrow>
         call funcs ?FB [p, e] = Inr (PArray vb) \<and>
         call funcs ?FC [p, e] = Inr (PArray vc) \<and>
         call funcs ?F (p # e # rest) =
           call funcs ?FA [p, e, PArray (vb + vc), PFunc ?G]"
    by (simp add: call_func_def)
  from gA gB gC gG gT run const show "\<exists>(F :: ('v, 'g) closure) G FA FB FC.
      generate_func mapping T = Inr F \<and> generate_func mapping BC = Inr G \<and>
      generate_func mapping A = Inr FA \<and> generate_func mapping B = Inr FB \<and>
      generate_func mapping C = Inr FC \<and>
      (\<forall>funcs p e rest.
         call funcs G (p # e # rest) =
           (case call funcs FB [p, e] of
              Inl er \<Rightarrow> Inl er
            | Inr x \<Rightarrow>
               (case call funcs FC [p, e] of Inl er \<Rightarrow> Inl er | Inr y \<Rightarrow> py_add x y)) \<and>
         call funcs F (p # e # rest) =
           (case call funcs G [p, e] of
              Inl er \<Rightarrow> Inl er
            | Inr flux \<Rightarrow> call funcs FA [p, e, flux, PFunc G])) \<and>
      (\<forall>funcs p e rest vb vc kwB kwC.
         (\<forall>args kwargs. funcs (attr_func_generator b) nB args kwargs = Inr (PArray vb)) \<and>
         (\<forall>args kwargs. funcs (attr_func_generator c) nC args kwargs = Inr (PArray vc)) \<and>
         subscript p nB = Inr (PDict kwB) \<and> subscript p nC = Inr (PDict kwC) \<longrightarrow>
         call funcs FB [p, e] = Inr (PArray vb) \<and>
         call funcs FC [p, e] = Inr (PArray vc) \<and>
         call funcs F (p # e # rest) =
           call funcs FA [p, e, PArray (vb + vc), PFunc G])"
    by blast
qed

text \<open>
  An instance with toy leaf functions: \<^verbatim>\<open>PowerLaw\<close> returns 2, \<^verbatim>\<open>BlackBody\<close>
  returns 3, and \<^verbatim>\<open>NormConv\<close> returns ten times the flux it is given. The tree
  \<^verbatim>\<open>NormConv * (PowerLaw + BlackBody)\<close> evaluates to 50.
\<close>

theorem ncon_times_sum_evaluator_witness:
  "ModelOperationNode_init [] ''4c''
      (leaf_model ''2a'' ''PowerLaw'' ''PL'' ''add'' False)
      (leaf_model ''3b'' ''BlackBody'' ''BB'' ''add'' False) ''+''
    = (Inr (compose ''4c'' (leaf_model ''2a'' ''PowerLaw'' ''PL'' ''add'' False) ''+''
                           (leaf_model ''3b'' ''BlackBody'' ''BB'' ''add'' False)), []) \<and>
   ModelOperationNode_init [] ''5d''
      (leaf_model ''1f'' ''NormConv'' ''NormConv'' ''con'' True)
      (compose ''4c'' (leaf_model ''2a'' ''PowerLaw'' ''PL'' ''add'' False) ''+''
                      (leaf_model ''3b'' ''BlackBody'' ''BB'' ''add'' False)) ''*''
    = (Inr toy_tree, []) \<and>
   generate_func toy_mapping toy_tree
    = Inr (Wrapper_ncon_add (Wrapper_ncon ''NormConv'' ''NormConv'')
            (Wrapper_add_add (Wrapper_add ''PowerLaw'' ''PowerLaw'')
                             (Wrapper_add ''BlackBody'' ''BlackBody''))
           :: (int, string) closure) \<and>
   call toy_funcs
     (Wrapper_ncon_add (Wrapper_ncon ''NormConv'' ''NormConv'')
        (Wrapper_add_add (Wrapper_add ''PowerLaw'' ''PowerLaw'')
                         (Wrapper_add ''BlackBody'' ''BlackBody'')))
     [toy_params, PArray 0]
    = Inr (PArray 50)"
proof -
  let ?A = "leaf_model ''1f'' ''NormConv'' ''NormConv'' ''con'' True"
  let ?B = "leaf_model ''2a'' ''PowerLaw'' ''PL'' ''add'' False"
  let ?C = "leaf_model ''3b'' ''BlackBody'' ''BB'' ''add'' False"
  let ?BC = "compose ''4c'' ?B ''+'' ?C"
  let ?a = "\<lparr>attr_name = ''NormConv'', attr_fmt = ''NormConv'', attr_type = ''model'',
             attr_is_operation = False, attr_id = ''1f'', attr_mtype = ''con'',
             attr_is_ncon = True, attr_func_generator = ''NormConv''\<rparr>"
  let ?b = "\<lparr>attr_name = ''PowerLaw'', attr_fmt = ''PL'', attr_type = ''model'',
             attr_is_operation = False, attr_id = ''2a'', attr_mtype = ''add'',
             attr_is_ncon = False, attr_func_generator = ''PowerLaw''\<rparr>"
  let ?c = "\<lparr>attr_name = ''BlackBody'', attr_fmt = ''BB'', attr_type = ''model'',
             attr_is_operation = False, attr_id = ''3b'', attr_mtype = ''add'',
             attr_is_ncon = False, attr_func_generator = ''BlackBody''\<rparr>"
  have leaves: "?A = ModelNode ?a [] []" "?B = ModelNode ?b [] []" "?C = ModelNode ?c [] []"
    by (simp_all add: leaf_model_def ModelNode_init_def Node_init_def)
  have kinds: "attr_mtype ?a = ''con''" "attr_is_ncon ?a" "attr_mtype ?b = ''add''"
    "attr_mtype ?c = ''add''"
    by simp_all
  have sum: "ModelOperationNode_init [] ''4c'' ?B ?C ''+'' = (Inr ?BC, [])"
    by (simp add: example_defs)
  have prod: "ModelOperationNode_init [] ''5d'' ?A ?BC ''*'' = (Inr toy_tree, [])"
    by (simp add: toy_tree_def example_defs)
  have names: "map_of toy_mapping (label_with_id Name ?A) = Some ''NormConv''"
    "map_of toy_mapping (label_with_id Name ?B) = Some ''PowerLaw''"
    "map_of toy_mapping (label_with_id Name ?C) = Some ''BlackBody''"
    by (simp_all add: toy_mapping_def leaves attr_label_def)
  have fixed_out:
    "\<forall>args kwargs. toy_funcs (attr_func_generator ?b) ''PowerLaw'' args kwargs = Inr (PArray 2)"
    "\<forall>args kwargs. toy_funcs (attr_func_generator ?c) ''BlackBody'' args kwargs = Inr (PArray 3)"
    by (simp_all add: toy_funcs_def)
  have entries: "subscript toy_params ''PowerLaw'' = Inr (PDict [])"
    "subscript toy_params ''BlackBody'' = Inr (PDict [])"
    by (simp_all add: toy_params_def)
  have hyp: "?A = ModelNode ?a [] [] \<and> attr_mtype ?a = ''con'' \<and> attr_is_ncon ?a \<and>
      ?B = ModelNode ?b [] [] \<and> attr_mtype ?b = ''add'' \<and>
      ?C = ModelNode ?c [] [] \<and> attr_mtype ?c = ''add'' \<and>
      ModelOperationNode_init [] ''4c'' ?B ?C ''+'' = (Inr ?BC, []) \<and>
      ModelOperationNode_init [] ''5d'' ?A ?BC ''*'' = (Inr toy_tree, []) \<and>
      map_of toy_mapping (label_with_id Name ?A) = Some ''NormConv'' \<and>
      map_of toy_mapping (label_with_id Name ?B) = Some ''PowerLaw'' \<and>
      map_of toy_mapping (label_with_id Name ?C) = Some ''BlackBody''"
    using leaves kinds sum prod names by (intro conjI)
  let ?G0 = "Wrapper_add_add (Wrapper_add ''PowerLaw'' ''PowerLaw'')
                             (Wrapper_add ''BlackBody'' ''BlackBody'') :: (int, string) closure"
  let ?FA0 = "Wrapper_ncon ''NormConv'' ''NormConv'' :: (int, string) closure"
  let ?F0 = "Wrapper_ncon_add ?FA0 ?G0"
  have F: "generate_func toy_mapping toy_tree = Inr ?F0"
    by (simp add: toy_tree_def toy_mapping_def example_defs)
  have G: "generate_func toy_mapping ?BC = Inr ?G0"
    by (simp add: toy_mapping_def example_defs)
  have FA: "generate_func toy_mapping ?A = Inr ?FA0"
    using names(1) by (simp add: leaves)
  from mp [OF ncon_times_sum_evaluator [where ?'v = int] hyp] F G FA
  have const: "\<forall>funcs p e rest vb vc kwB kwC.
         (\<forall>args kwargs. funcs (attr_func_generator ?b) ''PowerLaw'' args kwargs = Inr (PArray vb)) \<and>
         (\<forall>args kwargs. funcs (attr_func_generator ?c) ''BlackBody'' args kwargs = Inr (PArray vc)) \<and>
         subscript p ''PowerLaw'' = Inr (PDict kwB) \<and>
         subscript p ''BlackBody'' = Inr (PDict kwC) \<longrightarrow>
         call funcs ?F0 (p # e # rest) = call funcs ?FA0 [p, e, PArray (vb + vc), PFunc ?G0]"
    by (elim exE conjE) simp
  from const fixed_out entries
  have run: "call toy_funcs ?F0 [toy_params, PArray 0]
      = call toy_funcs ?FA0 [toy_params, PArray 0, PArray (2 + 3), PFunc ?G0]"
    by blast
  then have result: "call toy_funcs ?F0 [toy_params, PArray 0] = Inr (PArray 50)"
    by (simp add: call_func_def toy_funcs_def toy_params_def)
  show ?thesis
    by (rule conjI [OF sum conjI [OF prod conjI [OF F result]]])
qed

end
